theory Spec2Isabelle
  imports Complex_Main
begin

section \<open>Path-dependent Monte-Carlo pricing: the model\<close>

text \<open>
  The classes of the notebooks are embedded as records; the class of an object (which
  decides what an overridden method does) is a field holding a datatype with one
  constructor per class. Python floats are modelled as real numbers. Methods that
  mutate their object take it and return it updated; a raised exception is the left
  injection of a sum.
\<close>

datatype error =
    NotImplementedError
  | RuntimeError
  | ValueError
  | IndexError
  | StatisticsError
  | ZeroDivisionError
  | TypeError

subsection \<open>Process\<close>

text \<open>\<open>Process.StateData\<close>: the pair (spot, time), built afresh by every assignment.\<close>

record process_state_data =
  spot_sd :: real
  time_sd :: real

text \<open>
  The classes of processes: the superclass \<open>Process\<close>, whose \<open>evolve\<close> raises, and
  \<open>BlackScholesProcess\<close> with its attributes \<open>rate\<close> and \<open>vol\<close>.
\<close>

datatype process_class =
    Process
  | BlackScholesProcess (rate: real) (vol: real)

record process =
  process_class :: process_class
  spot :: real
  state :: process_state_data

text \<open>
  The constructors. \<open>Process.__init__(state)\<close> keeps \<open>state.spot\<close> as \<open>spot\<close>;
  \<open>BlackScholesProcess.__init__(spot, rate, vol)\<close> passes \<open>StateData(spot, 0)\<close>.
\<close>

definition new_Process :: "process_state_data \<Rightarrow> process" where
  "new_Process st = \<lparr>process_class = Process, spot = spot_sd st, state = st\<rparr>"

definition new_BlackScholesProcess :: "real \<Rightarrow> real \<Rightarrow> real \<Rightarrow> process" where
  "new_BlackScholesProcess s r v =
     \<lparr>process_class = BlackScholesProcess r v, spot = s,
      state = \<lparr>spot_sd = s, time_sd = 0\<rparr>\<rparr>"

definition Process_reset :: "process \<Rightarrow> process" where
  "Process_reset p = p\<lparr>state := \<lparr>spot_sd = spot p, time_sd = 0\<rparr>\<rparr>"

text \<open>
  \<open>evolve(spot, dt, norms)\<close>. The superclass raises \<open>NotImplementedError\<close>. The
  Black-Scholes step is \<open>spot * exp((rate - 0.5 * vol**2) * dt + vol * sqrt(dt) * norms)\<close>.
  For a negative \<open>dt\<close> numpy's \<open>sqrt\<close> gives \<open>nan\<close> with a warning and raises nothing,
  so the step still returns a float; that float is not a real number, and the value
  this model gives for a negative \<open>dt\<close> is not meant to describe it.
\<close>

definition evolve :: "process \<Rightarrow> real \<Rightarrow> real \<Rightarrow> real \<Rightarrow> error + real" where
  "evolve p s dt norms =
     (case process_class p of
        Process \<Rightarrow> Inl NotImplementedError
      | BlackScholesProcess r v \<Rightarrow>
          Inr (s * exp ((r - 0.5 * v\<^sup>2) * dt + v * sqrt dt * norms)))"

text \<open>
  \<open>Process.update(time, norms)\<close>: the time increment, one call of \<open>evolve\<close>, then the
  state is replaced and the new value returned. An exception of \<open>evolve\<close> leaves the
  state as it was.
\<close>

definition Process_update :: "process \<Rightarrow> real \<Rightarrow> real \<Rightarrow> (error + real) \<times> process" where
  "Process_update p t norms =
     (let dt = t - time_sd (state p) in
      case evolve p (spot_sd (state p)) dt norms of
        Inl e \<Rightarrow> (Inl e, p)
      | Inr st \<Rightarrow> (Inr st, p\<lparr>state := \<lparr>spot_sd = st, time_sd = t\<rparr>\<rparr>))"

subsection \<open>Payoffs and the yield curve\<close>

text \<open>
  A payoff is a callable applied to the state variable of the option, which is a float
  or \<open>None\<close>. \<open>Call(strike)\<close> computes \<open>maximum(spot - strike, 0.)\<close>; on \<open>None\<close> the
  subtraction raises \<open>TypeError\<close>.
\<close>

type_synonym payoff = "real option \<Rightarrow> error + real"

definition Call :: "real \<Rightarrow> payoff" where
  "Call strike s = (case s of None \<Rightarrow> Inl TypeError | Some x \<Rightarrow> Inr (max (x - strike) 0))"

datatype yield_curve = FixedRateYieldCurve real

fun discount :: "yield_curve \<Rightarrow> real \<Rightarrow> real" where
  "discount (FixedRateYieldCurve r) maturity = exp (- r * maturity)"

subsection \<open>Python's built-ins on lists of floats\<close>

text \<open>\<open>max\<close> and \<open>min\<close> raise \<open>ValueError\<close> on an empty list; \<open>xs[-1]\<close> raises
  \<open>IndexError\<close>; \<open>statistics.mean\<close> raises \<open>StatisticsError\<close>.\<close>

definition py_max :: "real list \<Rightarrow> error + real" where
  "py_max xs = (case xs of [] \<Rightarrow> Inl ValueError | x # r \<Rightarrow> Inr (fold max r x))"

definition py_min :: "real list \<Rightarrow> error + real" where
  "py_min xs = (case xs of [] \<Rightarrow> Inl ValueError | x # r \<Rightarrow> Inr (fold min r x))"

definition py_last :: "real list \<Rightarrow> error + real" where
  "py_last xs = (if xs = [] then Inl IndexError else Inr (last xs))"

definition py_mean :: "real list \<Rightarrow> error + real" where
  "py_mean xs = (if xs = [] then Inl StatisticsError else Inr (sum_list xs / real (length xs)))"

subsection \<open>OptionState\<close>

text \<open>\<open>OptionState.StateData\<close>: the recorded times, the recorded values of the
  underlying, and the state variable (\<open>None\<close> until the option has expired).\<close>

record option_state_data =
  updates :: "real list"
  underlying :: "real list"
  state_var :: "real option"

text \<open>
  The classes of option states: the superclass \<open>OptionState\<close>, \<open>AsianState\<close> and
  \<open>MaxState\<close>, and \<open>BarrierState\<close> with its four subclasses, each carrying the
  attribute \<open>barrier\<close>. \<open>AsianState\<close> and \<open>MaxState\<close> override only
  \<open>calculate_state_variable\<close>, so their payoff is always active.
\<close>

datatype option_class =
    OptionState
  | AsianState
  | MaxState
  | BarrierState real
  | UpAndOut real
  | DownAndOut real
  | UpAndIn real
  | DownAndIn real

record option_state =
  option_class :: option_class
  spot_os :: real
  expiry :: real
  payoff :: payoff
  times_os :: "real list"
  state_data :: option_state_data

definition empty_state_data :: option_state_data where
  "empty_state_data = \<lparr>updates = [], underlying = [], state_var = None\<rparr>"

text \<open>The constructor without the optional \<open>state_data\<close> argument.\<close>

definition new_OptionState ::
  "option_class \<Rightarrow> real \<Rightarrow> real \<Rightarrow> payoff \<Rightarrow> real list \<Rightarrow> option_state" where
  "new_OptionState c s e f ts =
     \<lparr>option_class = c, spot_os = s, expiry = e, payoff = f, times_os = ts,
      state_data = empty_state_data\<rparr>"

definition OptionState_reset :: "option_state \<Rightarrow> option_state" where
  "OptionState_reset os = os\<lparr>state_data := empty_state_data\<rparr>"

definition has_expired :: "option_state \<Rightarrow> bool" where
  "has_expired os =
     (if updates (state_data os) \<noteq> [] then
        (case py_max (updates (state_data os)) of
           Inr m \<Rightarrow> expiry os \<le> m
         | Inl e \<Rightarrow> False)
      else False)"

definition calculate_state_variable :: "option_state \<Rightarrow> error + real" where
  "calculate_state_variable os =
     (case option_class os of
        OptionState \<Rightarrow> Inl NotImplementedError
      | AsianState \<Rightarrow> py_mean (underlying (state_data os))
      | MaxState \<Rightarrow> py_max (underlying (state_data os))
      | BarrierState b \<Rightarrow> py_last (underlying (state_data os))
      | UpAndOut b \<Rightarrow> py_last (underlying (state_data os))
      | DownAndOut b \<Rightarrow> py_last (underlying (state_data os))
      | UpAndIn b \<Rightarrow> py_last (underlying (state_data os))
      | DownAndIn b \<Rightarrow> py_last (underlying (state_data os)))"

definition update_state :: "option_state \<Rightarrow> error + real option" where
  "update_state os =
     (if has_expired os then
        (case calculate_state_variable os of Inl e \<Rightarrow> Inl e | Inr v \<Rightarrow> Inr (Some v))
      else Inr None)"

text \<open>
  \<open>OptionState.update(time, underlying)\<close> appends to the two lists in place and then
  assigns the state variable; when \<open>update_state\<close> raises, the two appends have
  already happened and the assignment has not.
\<close>

definition OptionState_update ::
  "option_state \<Rightarrow> real \<Rightarrow> real \<Rightarrow> (error + unit) \<times> option_state" where
  "OptionState_update os t u =
     (if t \<in> set (times_os os) \<and> t \<notin> set (updates (state_data os)) then
        (let sd = state_data os;
             os1 = os\<lparr>state_data := sd\<lparr>updates := updates sd @ [t],
                                         underlying := underlying sd @ [u]\<rparr>\<rparr>
         in case update_state os1 of
              Inl e \<Rightarrow> (Inl e, os1)
            | Inr s \<Rightarrow> (Inr (), os1\<lparr>state_data := (state_data os1)\<lparr>state_var := s\<rparr>\<rparr>))
      else (Inr (), os))"

definition is_payoff_active :: "option_state \<Rightarrow> error + bool" where
  "is_payoff_active os =
     (case option_class os of
        OptionState \<Rightarrow> Inr True
      | AsianState \<Rightarrow> Inr True
      | MaxState \<Rightarrow> Inr True
      | BarrierState b \<Rightarrow> Inl NotImplementedError
      | UpAndOut b \<Rightarrow>
          (case py_max (underlying (state_data os)) of Inl e \<Rightarrow> Inl e | Inr m \<Rightarrow> Inr (m < b))
      | DownAndOut b \<Rightarrow>
          (case py_min (underlying (state_data os)) of Inl e \<Rightarrow> Inl e | Inr m \<Rightarrow> Inr (m > b))
      | UpAndIn b \<Rightarrow>
          (case py_max (underlying (state_data os)) of Inl e \<Rightarrow> Inl e | Inr m \<Rightarrow> Inr (m > b))
      | DownAndIn b \<Rightarrow>
          (case py_min (underlying (state_data os)) of Inl e \<Rightarrow> Inl e | Inr m \<Rightarrow> Inr (m < b)))"

definition calculate_payoff :: "option_state \<Rightarrow> error + real" where
  "calculate_payoff os =
     (if has_expired os then
        (case is_payoff_active os of
           Inl e \<Rightarrow> Inl e
         | Inr active \<Rightarrow>
             if active then payoff os (state_var (state_data os)) else Inr 0)
      else Inl RuntimeError)"

text \<open>
  A caller's sequence of \<open>reset()\<close> and \<open>update()\<close> calls on one option state; a
  caller that catches the exception of an \<open>update\<close> goes on with the object as the
  failed call left it.
\<close>

datatype os_call = Reset | Update real real

fun apply_call :: "option_state \<Rightarrow> os_call \<Rightarrow> option_state" where
  "apply_call os Reset = OptionState_reset os"
| "apply_call os (Update t u) = snd (OptionState_update os t u)"

definition apply_calls :: "option_state \<Rightarrow> os_call list \<Rightarrow> option_state" where
  "apply_calls os cs = foldl apply_call os cs"

subsection \<open>The driver \<open>mc_path_dependent\<close>\<close>

text \<open>
  \<open>np.random.normal()\<close> reads a global generator. The generator is modelled as the
  sequence of the samples it will return and the number of samples already drawn;
  the driver works on the process, the option state and that counter.
\<close>

record world =
  drawn :: nat
  the_process :: process
  the_option_state :: option_state

text \<open>The loop of \<open>do_one_path\<close> over the time nodes.\<close>

fun do_one_path_loop :: "(nat \<Rightarrow> real) \<Rightarrow> real list \<Rightarrow> world \<Rightarrow> (error + unit) \<times> world" where
  "do_one_path_loop normal [] w = (Inr (), w)"
| "do_one_path_loop normal (t # ts) w =
     (let std_norm = normal (drawn w);
          w1 = w\<lparr>drawn := Suc (drawn w)\<rparr>
      in case Process_update (the_process w1) t std_norm of
           (Inl e, p') \<Rightarrow> (Inl e, w1\<lparr>the_process := p'\<rparr>)
         | (Inr St, p') \<Rightarrow>
             (let w2 = w1\<lparr>the_process := p'\<rparr>
              in case OptionState_update (the_option_state w2) t St of
                   (Inl e, os') \<Rightarrow> (Inl e, w2\<lparr>the_option_state := os'\<rparr>)
                 | (Inr u, os') \<Rightarrow> do_one_path_loop normal ts (w2\<lparr>the_option_state := os'\<rparr>)))"

definition do_one_path :: "(nat \<Rightarrow> real) \<Rightarrow> real list \<Rightarrow> world \<Rightarrow> (error + real) \<times> world" where
  "do_one_path normal ts w =
     (case do_one_path_loop normal ts w of
        (Inl e, w') \<Rightarrow> (Inl e, w')
      | (Inr u, w') \<Rightarrow> (calculate_payoff (the_option_state w'), w'))"

text \<open>The loop \<open>for i in range(n_paths)\<close>, with the iterations still to run and the
  running sum.\<close>

fun paths_loop ::
  "(nat \<Rightarrow> real) \<Rightarrow> real list \<Rightarrow> nat \<Rightarrow> real \<Rightarrow> world \<Rightarrow> (error + real) \<times> world" where
  "paths_loop normal ts 0 running_sum w = (Inr running_sum, w)"
| "paths_loop normal ts (Suc k) running_sum w =
     (let w1 = w\<lparr>the_process := Process_reset (the_process w)\<rparr>;
          w2 = w1\<lparr>the_option_state := OptionState_reset (the_option_state w1)\<rparr>
      in case do_one_path normal ts w2 of
           (Inl e, w') \<Rightarrow> (Inl e, w')
         | (Inr path_value, w') \<Rightarrow> paths_loop normal ts k (running_sum + path_value) w')"

text \<open>
  \<open>mc_path_dependent(option_state, process, yield_curve, n_paths)\<close>, with the sample
  sequence and the number of samples drawn before the call. \<open>range(n_paths)\<close> is empty
  for \<open>n_paths \<le> 0\<close>; the division raises \<open>ZeroDivisionError\<close> for \<open>n_paths = 0\<close>.
\<close>

definition mc_path_dependent ::
  "(nat \<Rightarrow> real) \<Rightarrow> nat \<Rightarrow> option_state \<Rightarrow> process \<Rightarrow> yield_curve \<Rightarrow> int
     \<Rightarrow> (error + real) \<times> world" where
  "mc_path_dependent normal d0 os p yc n_paths =
     (let ts = times_os os;
          w0 = \<lparr>drawn = d0, the_process = p, the_option_state = os\<rparr>
      in case paths_loop normal ts (nat n_paths) 0 w0 of
           (Inl e, w') \<Rightarrow> (Inl e, w')
         | (Inr running_sum, w') \<Rightarrow>
             if n_paths = 0 then (Inl ZeroDivisionError, w')
             else (Inr (running_sum / real_of_int n_paths
                         * discount yc (expiry (the_option_state w'))), w'))"

text \<open>
  One path of the driver on its own: \<open>do_one_path\<close> started on the caller's objects
  as \<open>reset()\<close> leaves them, with \<open>d\<close> samples already drawn.
\<close>

definition single_path ::
  "(nat \<Rightarrow> real) \<Rightarrow> option_state \<Rightarrow> process \<Rightarrow> nat \<Rightarrow> (error + real) \<times> world" where
  "single_path normal os p d =
     do_one_path normal (times_os os)
       \<lparr>drawn = d, the_process = Process_reset p, the_option_state = OptionState_reset os\<rparr>"

subsection \<open>The pricer as the specification words it\<close>

text \<open>
  A path, for each required time in order: draw one sample, call \<open>process.update\<close>
  with it to get the fixing value, feed that value to \<open>optionState.update\<close>. The
  sample at position \<open>d\<close> is the first one drawn; an exception ends the path.
\<close>

fun simulate ::
  "(nat \<Rightarrow> real) \<Rightarrow> nat \<Rightarrow> real list \<Rightarrow> process \<Rightarrow> option_state
     \<Rightarrow> error + process \<times> option_state" where
  "simulate normal d [] p os = Inr (p, os)"
| "simulate normal d (t # ts) p os =
     (case fst (Process_update p t (normal d)) of
        Inl e \<Rightarrow> Inl e
      | Inr fixing \<Rightarrow>
          (case fst (OptionState_update os t fixing) of
             Inl e \<Rightarrow> Inl e
           | Inr u \<Rightarrow>
               simulate normal (Suc d) ts (snd (Process_update p t (normal d)))
                 (snd (OptionState_update os t fixing))))"

text \<open>
  The payoff of path number \<open>i\<close> (from 0): both objects are reset, the path reads the
  \<open>i\<close>-th block of samples (one per required time), and the option state is asked for
  its payoff after the last time.
\<close>

definition path_payoff ::
  "(nat \<Rightarrow> real) \<Rightarrow> nat \<Rightarrow> option_state \<Rightarrow> process \<Rightarrow> nat \<Rightarrow> error + real" where
  "path_payoff normal d0 os p i =
     (case simulate normal (d0 + i * length (times_os os)) (times_os os)
             (Process_reset p) (OptionState_reset os) of
        Inl e \<Rightarrow> Inl e
      | Inr (p', os') \<Rightarrow> calculate_payoff os')"

text \<open>The payoffs of a list of paths, or the first exception among them.\<close>

fun collect :: "(error + real) list \<Rightarrow> error + real list" where
  "collect [] = Inr []"
| "collect (Inl e # rs) = Inl e"
| "collect (Inr v # rs) = (case collect rs of Inl e \<Rightarrow> Inl e | Inr vs \<Rightarrow> Inr (v # vs))"

text \<open>The sum of the path payoffs over the number of paths, times the discount
  factor of the expiry.\<close>

definition price_spec ::
  "(nat \<Rightarrow> real) \<Rightarrow> nat \<Rightarrow> option_state \<Rightarrow> process \<Rightarrow> yield_curve \<Rightarrow> nat \<Rightarrow> error + real" where
  "price_spec normal d0 os p yc n =
     (case collect (map (path_payoff normal d0 os p) [0..<n]) of
        Inl e \<Rightarrow> Inl e
      | Inr vs \<Rightarrow> Inr (sum_list vs / real n * discount yc (expiry os)))"

subsection \<open>The invariant of the state variable\<close>

text \<open>The state variable is set exactly when the option has expired.\<close>

definition state_var_inv :: "option_state \<Rightarrow> bool" where
  "state_var_inv os = ((state_var (state_data os) \<noteq> None) = has_expired os)"

section \<open>Properties of the process\<close>

lemma evolve_Process_reset [simp]: "evolve (Process_reset p) = evolve p"
  by (simp add: evolve_def Process_reset_def fun_eq_iff)

lemma evolve_state_update [simp]: "evolve (p\<lparr>state := s\<rparr>) = evolve p"
  by (simp add: evolve_def fun_eq_iff)

text \<open>
  Claim C1 (time-homogeneity of Process). After \<open>reset()\<close>, \<open>update(t1, z)\<close> returns
  \<open>evolve(initialValue, t1, z)\<close>; and when that call produced the value \<open>v1\<close>, a
  following \<open>update(t2, z2)\<close> with \<open>t2 \<ge> t1\<close> returns \<open>evolve(v1, t2 - t1, z2)\<close>:
  the absolute time enters only through the elapsed increment.
\<close>

theorem Process_update_time_homogeneous:
  assumes "0 < t1" and "t1 \<le> t2"
  shows "fst (Process_update (Process_reset p) t1 z) = evolve p (spot p) t1 z
       \<and> (evolve p (spot p) t1 z = Inr v1 \<longrightarrow>
            fst (Process_update (snd (Process_update (Process_reset p) t1 z)) t2 z2)
              = evolve p v1 (t2 - t1) z2)"
proof (intro conjI impI)
  show "fst (Process_update (Process_reset p) t1 z) = evolve p (spot p) t1 z"
    by (simp add: Process_update_def Process_reset_def split: sum.splits)
next
  assume v1: "evolve p (spot p) t1 z = Inr v1"
  then have "snd (Process_update (Process_reset p) t1 z)
               = (Process_reset p)\<lparr>state := \<lparr>spot_sd = v1, time_sd = t1\<rparr>\<rparr>"
    by (simp add: Process_update_def Process_reset_def)
  then show "fst (Process_update (snd (Process_update (Process_reset p) t1 z)) t2 z2)
               = evolve p v1 (t2 - t1) z2"
    by (simp add: Process_update_def split: sum.splits)
qed

theorem Process_update_time_homogeneous_witness:
  "(0::real) < 1 \<and> (1::real) \<le> 2
   \<and> fst (Process_update (Process_reset (new_BlackScholesProcess 100 0.02 0.2)) 1 0) = Inr 100
   \<and> evolve (new_BlackScholesProcess 100 0.02 0.2) 100 1 0 = Inr 100
   \<and> fst (Process_update (snd (Process_update
             (Process_reset (new_BlackScholesProcess 100 0.02 0.2)) 1 0)) 2 0)
        = evolve (new_BlackScholesProcess 100 0.02 0.2) 100 (2 - 1) 0"
  using Process_update_time_homogeneous [of 1 2 "new_BlackScholesProcess 100 0.02 0.2" 0 100 0]
  by (simp add: new_BlackScholesProcess_def evolve_def power2_eq_square)

text \<open>
  Claim C8, as the code has it. \<open>Process.update\<close> checks nothing about the order of
  times: with a time before the current state time it calls \<open>evolve\<close> with the negative
  increment, fails only where \<open>evolve\<close> itself raises, and otherwise replaces the state
  by the result and the earlier time. No class with an \<open>evolve\<close> of its own fails.
\<close>

theorem Process_update_negative_step:
  assumes "t < time_sd (state p)"
  shows "fst (Process_update p t z) = evolve p (spot_sd (state p)) (t - time_sd (state p)) z
       \<and> (\<forall>st. evolve p (spot_sd (state p)) (t - time_sd (state p)) z = Inr st \<longrightarrow>
            snd (Process_update p t z) = p\<lparr>state := \<lparr>spot_sd = st, time_sd = t\<rparr>\<rparr>)
       \<and> (process_class p \<noteq> Process \<longrightarrow> \<not> isl (fst (Process_update p t z)))"
  by (cases "process_class p") (simp_all add: Process_update_def evolve_def Let_def split: sum.splits)

theorem Process_update_negative_step_witness:
  "(1::real) < time_sd (state \<lparr>process_class = BlackScholesProcess 0.02 0.2, spot = 100,
                   state = \<lparr>spot_sd = 100, time_sd = 2\<rparr>\<rparr>)
   \<and> \<not> isl (fst (Process_update \<lparr>process_class = BlackScholesProcess 0.02 0.2, spot = 100,
                   state = \<lparr>spot_sd = 100, time_sd = 2\<rparr>\<rparr> 1 0))"
proof -
  have h: "(1::real) < time_sd (state \<lparr>process_class = BlackScholesProcess 0.02 0.2,
      spot = 100, state = \<lparr>spot_sd = 100, time_sd = 2\<rparr>\<rparr>)"
    by simp
  have c: "process_class \<lparr>process_class = BlackScholesProcess 0.02 0.2,
      spot = 100, state = \<lparr>spot_sd = 100, time_sd = 2\<rparr>\<rparr> \<noteq> Process"
    by simp
  from Process_update_negative_step [OF h, of 0] c
  have "\<not> isl (fst (Process_update \<lparr>process_class = BlackScholesProcess 0.02 0.2, spot = 100,
                   state = \<lparr>spot_sd = 100, time_sd = 2\<rparr>\<rparr> 1 0))"
    by blast
  with h show ?thesis by blast
qed

text \<open>
  The claim as the specification words it (a time before the state time makes
  \<open>update\<close> fail) does not hold: a Black-Scholes process standing at time 2 and asked
  for time 1 returns a value and moves its state time back to 1.
\<close>

theorem Process_update_negative_step_counterexample:
  "time_sd (state \<lparr>process_class = BlackScholesProcess 0.02 0.2, spot = 100,
                   state = \<lparr>spot_sd = 100, time_sd = 2\<rparr>\<rparr>) = 2
   \<and> (1::real) < 2
   \<and> \<not> isl (fst (Process_update \<lparr>process_class = BlackScholesProcess 0.02 0.2, spot = 100,
                   state = \<lparr>spot_sd = 100, time_sd = 2\<rparr>\<rparr> 1 0))
   \<and> time_sd (state (snd (Process_update \<lparr>process_class = BlackScholesProcess 0.02 0.2, spot = 100,
                   state = \<lparr>spot_sd = 100, time_sd = 2\<rparr>\<rparr> 1 0))) = 1"
  by (simp add: Process_update_def evolve_def)

section \<open>Properties of the option state\<close>

lemma fold_max_Max: "fold max r (x::real) = Max (set (x # r))"
  using Max.set_eq_fold [of x r] by simp

lemma fold_min_Min: "fold min r (x::real) = Min (set (x # r))"
  using Min.set_eq_fold [of x r] by simp

lemma py_max_Max: "xs \<noteq> [] \<Longrightarrow> py_max xs = Inr (Max (set xs))"
  by (cases xs) (simp_all add: py_max_def fold_max_Max del: set_simps)

lemma py_min_Min: "xs \<noteq> [] \<Longrightarrow> py_min xs = Inr (Min (set xs))"
  by (cases xs) (simp_all add: py_min_def fold_min_Min del: set_simps)

text \<open>
  Claim C3 (contract of \<open>calculate_payoff\<close>). Before expiry the call fails with the
  state error, in particular on a freshly constructed and on a freshly reset state.
  After expiry it returns the payoff of the state variable when \<open>is_payoff_active\<close>
  answers true and 0 when it answers false; an up-and-out state that has seen a value
  at or above its barrier pays 0.
\<close>

theorem calculate_payoff_contract:
  "(\<not> has_expired os \<longrightarrow> calculate_payoff os = Inl RuntimeError)
   \<and> (has_expired os \<and> is_payoff_active os = Inr True \<longrightarrow>
        calculate_payoff os = payoff os (state_var (state_data os)))
   \<and> (has_expired os \<and> is_payoff_active os = Inr False \<longrightarrow> calculate_payoff os = Inr 0)
   \<and> calculate_payoff (new_OptionState c s e f ts) = Inl RuntimeError
   \<and> calculate_payoff (OptionState_reset os) = Inl RuntimeError
   \<and> (has_expired os \<and> option_class os = UpAndOut b
        \<and> u \<in> set (underlying (state_data os)) \<and> b \<le> u \<longrightarrow> calculate_payoff os = Inr 0)"
proof (intro conjI impI)
  show "calculate_payoff (new_OptionState c s e f ts) = Inl RuntimeError"
    by (simp add: calculate_payoff_def has_expired_def new_OptionState_def empty_state_data_def)
  show "calculate_payoff (OptionState_reset os) = Inl RuntimeError"
    by (simp add: calculate_payoff_def has_expired_def OptionState_reset_def empty_state_data_def)
next
  assume a: "has_expired os \<and> option_class os = UpAndOut b
        \<and> u \<in> set (underlying (state_data os)) \<and> b \<le> u"
  then have ne: "underlying (state_data os) \<noteq> []" by auto
  from a have "u \<le> Max (set (underlying (state_data os)))" by simp
  with a have "\<not> Max (set (underlying (state_data os))) < b" by linarith
  with a ne show "calculate_payoff os = Inr 0"
    by (auto simp: calculate_payoff_def is_payoff_active_def py_max_Max)
qed (simp_all add: calculate_payoff_def)

theorem calculate_payoff_contract_witness:
  "has_expired \<lparr>option_class = UpAndOut 120, spot_os = 100, expiry = 5, payoff = Call 100,
       times_os = [1, 2, 3, 4, 5],
       state_data = \<lparr>updates = [1, 2, 3, 4, 5], underlying = [101, 125, 103, 104, 105],
                      state_var = Some 105\<rparr>\<rparr>
   \<and> calculate_payoff \<lparr>option_class = UpAndOut 120, spot_os = 100, expiry = 5, payoff = Call 100,
       times_os = [1, 2, 3, 4, 5],
       state_data = \<lparr>updates = [1, 2, 3, 4, 5], underlying = [101, 125, 103, 104, 105],
                      state_var = Some 105\<rparr>\<rparr> = Inr 0
   \<and> \<not> has_expired \<lparr>option_class = AsianState, spot_os = 100, expiry = 5, payoff = Call 100,
       times_os = [1, 2, 3, 4, 5],
       state_data = \<lparr>updates = [1, 2], underlying = [101, 102], state_var = None\<rparr>\<rparr>
   \<and> calculate_payoff \<lparr>option_class = AsianState, spot_os = 100, expiry = 5, payoff = Call 100,
       times_os = [1, 2, 3, 4, 5],
       state_data = \<lparr>updates = [1, 2], underlying = [101, 102], state_var = None\<rparr>\<rparr>
        = Inl RuntimeError
   \<and> has_expired \<lparr>option_class = AsianState, spot_os = 100, expiry = 5, payoff = Call 100,
       times_os = [1, 2, 3, 4, 5],
       state_data = \<lparr>updates = [1, 2, 3, 4, 5], underlying = [101, 102, 103, 104, 105],
                      state_var = Some 103\<rparr>\<rparr>
   \<and> calculate_payoff \<lparr>option_class = AsianState, spot_os = 100, expiry = 5, payoff = Call 100,
       times_os = [1, 2, 3, 4, 5],
       state_data = \<lparr>updates = [1, 2, 3, 4, 5], underlying = [101, 102, 103, 104, 105],
                      state_var = Some 103\<rparr>\<rparr> = Inr 3"
  using calculate_payoff_contract [of "\<lparr>option_class = UpAndOut 120, spot_os = 100, expiry = 5,
       payoff = Call 100, times_os = [1, 2, 3, 4, 5],
       state_data = \<lparr>updates = [1, 2, 3, 4, 5], underlying = [101, 125, 103, 104, 105],
                      state_var = Some 105\<rparr>\<rparr>" _ _ _ _ _ 120 125]
    calculate_payoff_contract [of "\<lparr>option_class = AsianState, spot_os = 100, expiry = 5,
       payoff = Call 100, times_os = [1, 2, 3, 4, 5],
       state_data = \<lparr>updates = [1, 2], underlying = [101, 102], state_var = None\<rparr>\<rparr>"]
    calculate_payoff_contract [of "\<lparr>option_class = AsianState, spot_os = 100, expiry = 5,
       payoff = Call 100, times_os = [1, 2, 3, 4, 5],
       state_data = \<lparr>updates = [1, 2, 3, 4, 5], underlying = [101, 102, 103, 104, 105],
                      state_var = Some 103\<rparr>\<rparr>"]
  by (simp add: has_expired_def py_max_def is_payoff_active_def Call_def)

text \<open>
  Claim C4, as the code has it. \<open>UpAndOut.is_payoff_active\<close> compares with \<open><\<close>, so a
  path whose largest observed value equals the barrier is not active: touching the
  barrier knocks the option out.
\<close>

theorem UpAndOut_touching_knocks_out:
  assumes "option_class os = UpAndOut B"
    and "underlying (state_data os) \<noteq> []"
    and "Max (set (underlying (state_data os))) = B"
  shows "is_payoff_active os = Inr False"
  using assms by (simp add: is_payoff_active_def py_max_Max del: Max_less_iff)

theorem UpAndOut_touching_knocks_out_witness:
  "is_payoff_active \<lparr>option_class = UpAndOut 120, spot_os = 100, expiry = 3, payoff = Call 100,
       times_os = [1, 2, 3],
       state_data = \<lparr>updates = [1, 2, 3], underlying = [100, 120, 110],
                      state_var = Some 110\<rparr>\<rparr> = Inr False"
  using UpAndOut_touching_knocks_out [of "\<lparr>option_class = UpAndOut 120, spot_os = 100,
       expiry = 3, payoff = Call 100, times_os = [1, 2, 3],
       state_data = \<lparr>updates = [1, 2, 3], underlying = [100, 120, 110],
                      state_var = Some 110\<rparr>\<rparr>" 120]
  by simp

text \<open>
  The claim as the specification words it (a maximum equal to the barrier leaves the
  payoff active) fails on the complete record 100, 120, 110 with barrier 120.
\<close>

theorem UpAndOut_touching_counterexample:
  "py_max (underlying (state_data (apply_calls
       (new_OptionState (UpAndOut 120) 100 3 (Call 100) [1, 2, 3])
       [Update 1 100, Update 2 120, Update 3 110]))) = Inr 120
   \<and> set (times_os (apply_calls
       (new_OptionState (UpAndOut 120) 100 3 (Call 100) [1, 2, 3])
       [Update 1 100, Update 2 120, Update 3 110]))
      \<subseteq> set (updates (state_data (apply_calls
       (new_OptionState (UpAndOut 120) 100 3 (Call 100) [1, 2, 3])
       [Update 1 100, Update 2 120, Update 3 110])))
   \<and> has_expired (apply_calls
       (new_OptionState (UpAndOut 120) 100 3 (Call 100) [1, 2, 3])
       [Update 1 100, Update 2 120, Update 3 110])
   \<and> is_payoff_active (apply_calls
       (new_OptionState (UpAndOut 120) 100 3 (Call 100) [1, 2, 3])
       [Update 1 100, Update 2 120, Update 3 110]) = Inr False"
  by (simp add: apply_calls_def new_OptionState_def empty_state_data_def OptionState_update_def
      update_state_def has_expired_def py_max_def calculate_state_variable_def py_last_def
      is_payoff_active_def Let_def)

text \<open>
  Claim C5 (activation table). With at least one observed value, the payoff is active
  exactly when: maximum below the barrier (up-and-out), minimum above it
  (down-and-out), maximum above it (up-and-in), minimum below it (down-and-in); all
  four comparisons are strict.
\<close>

theorem is_payoff_active_table:
  assumes "underlying (state_data os) \<noteq> []"
  shows "(option_class os = UpAndOut b \<longrightarrow>
            is_payoff_active os = Inr (Max (set (underlying (state_data os))) < b))
       \<and> (option_class os = DownAndOut b \<longrightarrow>
            is_payoff_active os = Inr (Min (set (underlying (state_data os))) > b))
       \<and> (option_class os = UpAndIn b \<longrightarrow>
            is_payoff_active os = Inr (Max (set (underlying (state_data os))) > b))
       \<and> (option_class os = DownAndIn b \<longrightarrow>
            is_payoff_active os = Inr (Min (set (underlying (state_data os))) < b))"
  using assms
  by (simp add: is_payoff_active_def py_max_Max py_min_Min)

theorem is_payoff_active_table_witness:
  "is_payoff_active \<lparr>option_class = UpAndOut 120, spot_os = 100, expiry = 2, payoff = Call 100,
       times_os = [1, 2],
       state_data = \<lparr>updates = [1, 2], underlying = [101, 119], state_var = Some 119\<rparr>\<rparr>
     = Inr True
   \<and> is_payoff_active \<lparr>option_class = DownAndOut 80, spot_os = 100, expiry = 2, payoff = Call 100,
       times_os = [1, 2],
       state_data = \<lparr>updates = [1, 2], underlying = [80, 90], state_var = Some 90\<rparr>\<rparr>
     = Inr False
   \<and> is_payoff_active \<lparr>option_class = UpAndIn 120, spot_os = 100, expiry = 2, payoff = Call 100,
       times_os = [1, 2],
       state_data = \<lparr>updates = [1, 2], underlying = [125, 90], state_var = Some 90\<rparr>\<rparr>
     = Inr True
   \<and> is_payoff_active \<lparr>option_class = DownAndIn 80, spot_os = 100, expiry = 2, payoff = Call 100,
       times_os = [1, 2],
       state_data = \<lparr>updates = [1, 2], underlying = [80, 90], state_var = Some 90\<rparr>\<rparr>
     = Inr False"
  using is_payoff_active_table [of "\<lparr>option_class = UpAndOut 120, spot_os = 100, expiry = 2,
       payoff = Call 100, times_os = [1, 2],
       state_data = \<lparr>updates = [1, 2], underlying = [101, 119], state_var = Some 119\<rparr>\<rparr>" 120]
    is_payoff_active_table [of "\<lparr>option_class = DownAndOut 80, spot_os = 100, expiry = 2,
       payoff = Call 100, times_os = [1, 2],
       state_data = \<lparr>updates = [1, 2], underlying = [80, 90], state_var = Some 90\<rparr>\<rparr>" 80]
    is_payoff_active_table [of "\<lparr>option_class = UpAndIn 120, spot_os = 100, expiry = 2,
       payoff = Call 100, times_os = [1, 2],
       state_data = \<lparr>updates = [1, 2], underlying = [125, 90], state_var = Some 90\<rparr>\<rparr>" 120]
    is_payoff_active_table [of "\<lparr>option_class = DownAndIn 80, spot_os = 100, expiry = 2,
       payoff = Call 100, times_os = [1, 2],
       state_data = \<lparr>updates = [1, 2], underlying = [80, 90], state_var = Some 90\<rparr>\<rparr>" 80]
  by simp

text \<open>
  Claim C6 (rejected and duplicate updates). \<open>update(t, v)\<close> with a time that is not
  required, or that is already recorded, returns without changing the object; and
  whatever a first \<open>update(t, v)\<close> did, a second call at the same time, with any value,
  changes nothing.
\<close>

theorem OptionState_update_rejected_noop:
  "(t \<notin> set (times_os os) \<or> t \<in> set (updates (state_data os)) \<longrightarrow>
      OptionState_update os t v = (Inr (), os))
   \<and> OptionState_update (snd (OptionState_update os t v)) t v'
       = (Inr (), snd (OptionState_update os t v))"
  by (auto simp: OptionState_update_def Let_def split: sum.splits)

theorem OptionState_update_rejected_noop_witness:
  "(3 / 2) \<notin> set (times_os \<lparr>option_class = AsianState, spot_os = 100, expiry = 3,
       payoff = Call 100, times_os = [1, 2, 3],
       state_data = \<lparr>updates = [1], underlying = [101], state_var = None\<rparr>\<rparr>)
   \<and> OptionState_update \<lparr>option_class = AsianState, spot_os = 100, expiry = 3,
       payoff = Call 100, times_os = [1, 2, 3],
       state_data = \<lparr>updates = [1], underlying = [101], state_var = None\<rparr>\<rparr> (3 / 2) 200
     = (Inr (), \<lparr>option_class = AsianState, spot_os = 100, expiry = 3,
       payoff = Call 100, times_os = [1, 2, 3],
       state_data = \<lparr>updates = [1], underlying = [101], state_var = None\<rparr>\<rparr>)
   \<and> 1 \<in> set (updates (state_data \<lparr>option_class = AsianState, spot_os = 100, expiry = 3,
       payoff = Call 100, times_os = [1, 2, 3],
       state_data = \<lparr>updates = [1], underlying = [101], state_var = None\<rparr>\<rparr>))
   \<and> OptionState_update \<lparr>option_class = AsianState, spot_os = 100, expiry = 3,
       payoff = Call 100, times_os = [1, 2, 3],
       state_data = \<lparr>updates = [1], underlying = [101], state_var = None\<rparr>\<rparr> 1 200
     = (Inr (), \<lparr>option_class = AsianState, spot_os = 100, expiry = 3,
       payoff = Call 100, times_os = [1, 2, 3],
       state_data = \<lparr>updates = [1], underlying = [101], state_var = None\<rparr>\<rparr>)"
  using OptionState_update_rejected_noop [of "3 / 2" "\<lparr>option_class = AsianState, spot_os = 100,
       expiry = 3, payoff = Call 100, times_os = [1, 2, 3],
       state_data = \<lparr>updates = [1], underlying = [101], state_var = None\<rparr>\<rparr>" 200]
    OptionState_update_rejected_noop [of 1 "\<lparr>option_class = AsianState, spot_os = 100,
       expiry = 3, payoff = Call 100, times_os = [1, 2, 3],
       state_data = \<lparr>updates = [1], underlying = [101], state_var = None\<rparr>\<rparr>" 200]
  by simp

text \<open>
  The record-completeness invariant. An accepted \<open>update\<close> assigns the state variable
  from \<open>update_state\<close>, which asks \<open>has_expired\<close>; for a class that implements
  \<open>calculate_state_variable\<close> that call succeeds, since a value has just been appended.
\<close>

lemma has_expired_state_var [simp]:
  "has_expired (os\<lparr>state_data := sd\<lparr>state_var := s\<rparr>\<rparr>) = has_expired (os\<lparr>state_data := sd\<rparr>)"
  by (simp add: has_expired_def split: sum.splits)

lemma calculate_state_variable_concrete:
  assumes "option_class os \<noteq> OptionState" and "underlying (state_data os) \<noteq> []"
  shows "\<exists>v. calculate_state_variable os = Inr v"
  using assms
  by (cases "option_class os")
     (simp_all add: calculate_state_variable_def py_mean_def py_last_def py_max_Max)

lemma option_class_reset [simp]: "option_class (OptionState_reset os) = option_class os"
  by (simp add: OptionState_reset_def)

lemma option_class_update [simp]: "option_class (snd (OptionState_update os t u)) = option_class os"
  by (simp add: OptionState_update_def Let_def split: sum.splits)

lemma state_var_inv_reset: "state_var_inv (OptionState_reset os)"
  by (simp add: state_var_inv_def OptionState_reset_def empty_state_data_def has_expired_def)

lemma state_var_inv_update:
  assumes "option_class os \<noteq> OptionState" and "state_var_inv os"
  shows "state_var_inv (snd (OptionState_update os t u))"
proof (cases "t \<in> set (times_os os) \<and> t \<notin> set (updates (state_data os))")
  case False
  then show ?thesis using assms by (auto simp: OptionState_update_def)
next
  case True
  define os1 where "os1 = os\<lparr>state_data := (state_data os)\<lparr>updates := updates (state_data os) @ [t],
                                         underlying := underlying (state_data os) @ [u]\<rparr>\<rparr>"
  have "option_class os1 \<noteq> OptionState" "underlying (state_data os1) \<noteq> []"
    using assms by (simp_all add: os1_def)
  then obtain v where v: "calculate_state_variable os1 = Inr v"
    using calculate_state_variable_concrete by blast
  have upd: "snd (OptionState_update os t u)
     = os1\<lparr>state_data := (state_data os1)\<lparr>state_var := (if has_expired os1 then Some v else None)\<rparr>\<rparr>"
    using True v by (simp add: OptionState_update_def Let_def os1_def [symmetric] update_state_def)
  show ?thesis
    unfolding upd by (simp add: state_var_inv_def)
qed

lemma state_var_inv_apply_call:
  "option_class os \<noteq> OptionState \<Longrightarrow> state_var_inv os \<Longrightarrow> state_var_inv (apply_call os c)"
  by (cases c) (simp_all add: state_var_inv_reset state_var_inv_update)

lemma option_class_apply_call [simp]: "option_class (apply_call os c) = option_class os"
  by (cases c) simp_all

lemma state_var_inv_apply_calls:
  "option_class os \<noteq> OptionState \<Longrightarrow> state_var_inv os \<Longrightarrow> state_var_inv (apply_calls os cs)"
  unfolding apply_calls_def
  by (induction cs arbitrary: os) (simp_all add: state_var_inv_apply_call)

text \<open>
  Claim C7, as the code has it. For an option state of a class that implements
  \<open>calculate_state_variable\<close>, constructed with an empty record, after any sequence of
  \<open>reset()\<close> and \<open>update()\<close> calls the state variable is set if and only if
  \<open>has_expired()\<close> is true, that is, the record is non-empty and its largest time is at
  or after the expiry.
\<close>

theorem state_variable_set_iff_expired:
  assumes "c \<noteq> OptionState"
  shows "(state_var (state_data (apply_calls (new_OptionState c s e f ts) cs)) \<noteq> None)
         = has_expired (apply_calls (new_OptionState c s e f ts) cs)"
proof -
  have "state_var_inv (new_OptionState c s e f ts)"
    by (simp add: state_var_inv_def new_OptionState_def empty_state_data_def has_expired_def)
  moreover have "option_class (new_OptionState c s e f ts) \<noteq> OptionState"
    using assms by (simp add: new_OptionState_def)
  ultimately have "state_var_inv (apply_calls (new_OptionState c s e f ts) cs)"
    by (rule state_var_inv_apply_calls [rotated])
  then show ?thesis by (simp add: state_var_inv_def)
qed

lemmas eval_defs = mc_path_dependent_def price_spec_def path_payoff_def single_path_def
  do_one_path_def new_OptionState_def new_BlackScholesProcess_def empty_state_data_def
  Process_reset_def OptionState_reset_def Process_update_def evolve_def OptionState_update_def
  update_state_def has_expired_def calculate_state_variable_def calculate_payoff_def
  is_payoff_active_def py_max_def py_mean_def py_last_def Call_def apply_calls_def
  Let_def power2_eq_square

theorem state_variable_set_iff_expired_witness:
  "AsianState \<noteq> OptionState
   \<and> state_var (state_data (apply_calls
        (new_OptionState AsianState 100 5 (Call 100) [1, 2, 3, 4, 5])
        [Update 1 101, Update 2 102, Update 3 103, Update 4 104, Update 5 105])) = Some 103
   \<and> has_expired (apply_calls
        (new_OptionState AsianState 100 5 (Call 100) [1, 2, 3, 4, 5])
        [Update 1 101, Update 2 102, Update 3 103, Update 4 104, Update 5 105])"
proof -
  have h: "AsianState \<noteq> OptionState" by simp
  have v: "state_var (state_data (apply_calls
        (new_OptionState AsianState 100 5 (Call 100) [1, 2, 3, 4, 5])
        [Update 1 101, Update 2 102, Update 3 103, Update 4 104, Update 5 105])) = Some 103"
    by (simp add: eval_defs)
  from state_variable_set_iff_expired [OF h, of 100 5 "Call 100" "[1, 2, 3, 4, 5]"
      "[Update 1 101, Update 2 102, Update 3 103, Update 4 104, Update 5 105]"] v
  have "has_expired (apply_calls
        (new_OptionState AsianState 100 5 (Call 100) [1, 2, 3, 4, 5])
        [Update 1 101, Update 2 102, Update 3 103, Update 4 104, Update 5 105])"
    by simp
  with h v show ?thesis by blast
qed

text \<open>
  The claim as the specification words it (set if and only if every required time has
  been observed) fails: a single \<open>update(5, 100)\<close> on a fresh up-and-out state with
  required times 1 to 5 and expiry 5 sets the state variable, with four required times
  never observed.
\<close>

theorem state_variable_counterexample:
  "state_var (state_data (apply_calls
       (new_OptionState (UpAndOut 120) 100 5 (Call 100) [1, 2, 3, 4, 5]) [Update 5 100])) = Some 100
   \<and> \<not> set (times_os (apply_calls
       (new_OptionState (UpAndOut 120) 100 5 (Call 100) [1, 2, 3, 4, 5]) [Update 5 100]))
      \<subseteq> set (updates (state_data (apply_calls
       (new_OptionState (UpAndOut 120) 100 5 (Call 100) [1, 2, 3, 4, 5]) [Update 5 100])))"
  by (simp add: apply_calls_def new_OptionState_def empty_state_data_def OptionState_update_def
      update_state_def has_expired_def py_max_def calculate_state_variable_def py_last_def
      Let_def)

section \<open>Properties of the driver\<close>

text \<open>What a path leaves untouched: the class and the starting value of the process,
  and everything of the option state but its record.\<close>

lemma Process_update_frame:
  "Process_update p t z = (r, p') \<Longrightarrow> Process_reset p' = Process_reset p"
  by (auto simp: Process_update_def Process_reset_def Let_def split: sum.splits)

lemma Process_update_time:
  "Process_update p t z = (Inr v, p') \<Longrightarrow> time_sd (state p') = t"
  by (auto simp: Process_update_def Let_def split: sum.splits)

lemma OptionState_update_frame:
  "OptionState_update os t u = (r, os') \<Longrightarrow> OptionState_reset os' = OptionState_reset os"
  by (auto simp: OptionState_update_def OptionState_reset_def Let_def split: sum.splits if_splits)

lemma do_one_path_loop_frame:
  "do_one_path_loop normal ts w = (r, w') \<Longrightarrow>
     Process_reset (the_process w') = Process_reset (the_process w)
     \<and> OptionState_reset (the_option_state w') = OptionState_reset (the_option_state w)
     \<and> (r = Inr u \<longrightarrow> drawn w' = drawn w + length ts)"
proof (induction ts arbitrary: w)
  case Nil
  then show ?case by auto
next
  case (Cons t ts)
  obtain r1 p' where pu: "Process_update (the_process w) t (normal (drawn w)) = (r1, p')"
    by (cases "Process_update (the_process w) t (normal (drawn w))")
  note pf = Process_update_frame [OF pu]
  show ?case
  proof (cases r1)
    case (Inl e)
    with Cons.prems pu pf show ?thesis by (auto simp: Let_def)
  next
    case (Inr St)
    obtain r2 os' where ou: "OptionState_update (the_option_state w) t St = (r2, os')"
      by (cases "OptionState_update (the_option_state w) t St")
    note of1 = OptionState_update_frame [OF ou]
    show ?thesis
    proof (cases r2)
      case (Inl e)
      with Cons.prems pu Inr ou pf of1 show ?thesis by (auto simp: Let_def)
    next
      case r2: (Inr x)
      with Cons.prems pu Inr ou
      have "do_one_path_loop normal ts
              (w\<lparr>drawn := Suc (drawn w), the_process := p', the_option_state := os'\<rparr>) = (r, w')"
        by (simp add: Let_def)
      from Cons.IH [OF this] pf of1 show ?thesis by simp
    qed
  qed
qed

lemma do_one_path_loop_time:
  "do_one_path_loop normal ts w = (Inr u, w') \<Longrightarrow> ts \<noteq> [] \<Longrightarrow>
     time_sd (state (the_process w')) = last ts"
proof (induction ts arbitrary: w)
  case Nil
  then show ?case by simp
next
  case (Cons t ts)
  obtain r1 p' where pu: "Process_update (the_process w) t (normal (drawn w)) = (r1, p')"
    by (cases "Process_update (the_process w) t (normal (drawn w))")
  show ?case
  proof (cases r1)
    case (Inl e)
    with Cons.prems pu show ?thesis by (simp add: Let_def)
  next
    case (Inr St)
    obtain r2 os' where ou: "OptionState_update (the_option_state w) t St = (r2, os')"
      by (cases "OptionState_update (the_option_state w) t St")
    show ?thesis
    proof (cases r2)
      case (Inl e)
      with Cons.prems pu Inr ou show ?thesis by (simp add: Let_def)
    next
      case r2: (Inr x)
      with Cons.prems pu Inr ou
      have rec: "do_one_path_loop normal ts
              (w\<lparr>drawn := Suc (drawn w), the_process := p', the_option_state := os'\<rparr>) = (Inr u, w')"
        by (simp add: Let_def)
      show ?thesis
      proof (cases "ts = []")
        case True
        with rec pu Inr show ?thesis by (auto dest: Process_update_time)
      next
        case False
        with Cons.IH [OF rec] show ?thesis by simp
      qed
    qed
  qed
qed

lemma do_one_path_frame:
  "do_one_path normal ts w = (r, w') \<Longrightarrow>
     Process_reset (the_process w') = Process_reset (the_process w)
     \<and> OptionState_reset (the_option_state w') = OptionState_reset (the_option_state w)
     \<and> (r = Inr v \<longrightarrow> drawn w' = drawn w + length ts
          \<and> calculate_payoff (the_option_state w') = Inr v
          \<and> (ts \<noteq> [] \<longrightarrow> time_sd (state (the_process w')) = last ts))"
proof -
  assume d: "do_one_path normal ts w = (r, w')"
  obtain r0 w0 where l: "do_one_path_loop normal ts w = (r0, w0)"
    by (cases "do_one_path_loop normal ts w")
  show ?thesis
  proof (cases r0)
    case (Inl e)
    with d l do_one_path_loop_frame [OF l] show ?thesis
      by (auto simp: do_one_path_def)
  next
    case (Inr x)
    with d l do_one_path_loop_frame [OF l, of x] do_one_path_loop_time [of normal ts w x w0]
    show ?thesis
      by (auto simp: do_one_path_def)
  qed
qed

lemma reset_world:
  "Process_reset (the_process w) = Process_reset p \<Longrightarrow>
   OptionState_reset (the_option_state w) = OptionState_reset os \<Longrightarrow>
   do_one_path normal (times_os os)
     (w\<lparr>the_process := Process_reset (the_process w),
        the_option_state := OptionState_reset (the_option_state w)\<rparr>)
   = single_path normal os p (drawn w)"
  by (cases w) (simp add: single_path_def)

lemma paths_loop_Suc:
  assumes "Process_reset (the_process w) = Process_reset p"
    and "OptionState_reset (the_option_state w) = OptionState_reset os"
  shows "paths_loop normal (times_os os) (Suc k) rs w =
     (case single_path normal os p (drawn w) of
        (Inl e, w') \<Rightarrow> (Inl e, w')
      | (Inr path_value, w') \<Rightarrow> paths_loop normal (times_os os) k (rs + path_value) w')"
  using reset_world [OF assms, of normal] by (simp add: Let_def)

lemma single_path_frame:
  assumes "single_path normal os p d = (r, w')"
  shows "Process_reset (the_process w') = Process_reset p"
    and "OptionState_reset (the_option_state w') = OptionState_reset os"
    and "r = Inr v \<Longrightarrow> drawn w' = d + length (times_os os)"
    and "r = Inr v \<Longrightarrow> calculate_payoff (the_option_state w') = Inr v"
    and "r = Inr v \<Longrightarrow> times_os os \<noteq> [] \<Longrightarrow> time_sd (state (the_process w')) = last (times_os os)"
  using do_one_path_frame [OF assms [unfolded single_path_def], of v]
  by (simp_all add: Process_reset_def OptionState_reset_def)

lemma do_one_path_loop_simulate:
  "(case do_one_path_loop normal ts w of
      (Inl e, w') \<Rightarrow> Inl e
    | (Inr u, w') \<Rightarrow> Inr (the_process w', the_option_state w'))
   = simulate normal (drawn w) ts (the_process w) (the_option_state w)"
proof (induction ts arbitrary: w)
  case Nil
  show ?case by simp
next
  case (Cons t ts)
  obtain r1 p' where pu: "Process_update (the_process w) t (normal (drawn w)) = (r1, p')"
    by (cases "Process_update (the_process w) t (normal (drawn w))")
  show ?case
  proof (cases r1)
    case (Inl e)
    with pu show ?thesis by (simp add: Let_def)
  next
    case (Inr St)
    obtain r2 os' where ou: "OptionState_update (the_option_state w) t St = (r2, os')"
      by (cases "OptionState_update (the_option_state w) t St")
    show ?thesis
    proof (cases r2)
      case (Inl e)
      with pu Inr ou show ?thesis by (simp add: Let_def)
    next
      case r2: (Inr x)
      with pu Inr ou
        Cons.IH [of "w\<lparr>drawn := Suc (drawn w), the_process := p', the_option_state := os'\<rparr>"]
      show ?thesis by (simp add: Let_def)
    qed
  qed
qed

lemma path_payoff_single:
  "path_payoff normal d0 os p i = fst (single_path normal os p (d0 + i * length (times_os os)))"
proof -
  let ?w = "\<lparr>drawn = d0 + i * length (times_os os), the_process = Process_reset p,
             the_option_state = OptionState_reset os\<rparr>"
  obtain r w' where l: "do_one_path_loop normal (times_os os) ?w = (r, w')"
    by (cases "do_one_path_loop normal (times_os os) ?w")
  have "simulate normal (d0 + i * length (times_os os)) (times_os os)
          (Process_reset p) (OptionState_reset os)
        = (case r of Inl e \<Rightarrow> Inl e | Inr u \<Rightarrow> Inr (the_process w', the_option_state w'))"
    using do_one_path_loop_simulate [of normal "times_os os" ?w] l by simp
  then show ?thesis
    using l by (simp add: path_payoff_def single_path_def do_one_path_def split: sum.splits)
qed

lemma upt_Suc_shift: "[0..<Suc k] = 0 # map Suc [0..<k]"
  by (simp add: upt_conv_Cons map_Suc_upt del: upt_Suc)

lemma paths_loop_fst:
  assumes "Process_reset (the_process w) = Process_reset p"
    and "OptionState_reset (the_option_state w) = OptionState_reset os"
  shows "fst (paths_loop normal (times_os os) k rs w) =
     (case collect (map (path_payoff normal (drawn w) os p) [0..<k]) of
        Inl e \<Rightarrow> Inl e
      | Inr vs \<Rightarrow> Inr (rs + sum_list vs))"
  using assms
proof (induction k arbitrary: rs w)
  case 0
  then show ?case by simp
next
  case (Suc k)
  obtain r w' where sp: "single_path normal os p (drawn w) = (r, w')"
    by (cases "single_path normal os p (drawn w)")
  have p0: "path_payoff normal (drawn w) os p 0 = r"
    using sp by (simp add: path_payoff_single)
  show ?case
  proof (cases r)
    case (Inl e)
    with sp p0 show ?thesis
      by (simp add: paths_loop_Suc [OF Suc.prems] upt_Suc_shift del: upt_Suc paths_loop.simps)
  next
    case (Inr v)
    note fr = single_path_frame [OF sp]
    have dr: "drawn w' = drawn w + length (times_os os)"
      using fr(3) Inr by simp
    have shift: "path_payoff normal (drawn w') os p = path_payoff normal (drawn w) os p \<circ> Suc"
      by (simp add: path_payoff_single dr fun_eq_iff add.assoc)
    have "fst (paths_loop normal (times_os os) (Suc k) rs w)
            = fst (paths_loop normal (times_os os) k (rs + v) w')"
      using sp Inr by (simp add: paths_loop_Suc [OF Suc.prems] del: paths_loop.simps)
    also have "\<dots> = (case collect (map (path_payoff normal (drawn w') os p) [0..<k]) of
        Inl e \<Rightarrow> Inl e | Inr vs \<Rightarrow> Inr (rs + v + sum_list vs))"
      by (rule Suc.IH [OF fr(1) fr(2)])
    also have "\<dots> = (case collect (map (path_payoff normal (drawn w) os p) [0..<Suc k]) of
        Inl e \<Rightarrow> Inl e | Inr vs \<Rightarrow> Inr (rs + sum_list vs))"
      using p0 Inr
      by (simp add: upt_Suc_shift shift add.assoc del: upt_Suc split: sum.splits)
    finally show ?thesis .
  qed
qed

lemma paths_loop_frame:
  assumes "Process_reset (the_process w) = Process_reset p"
    and "OptionState_reset (the_option_state w) = OptionState_reset os"
  shows "Process_reset (the_process (snd (paths_loop normal (times_os os) k rs w))) = Process_reset p
     \<and> OptionState_reset (the_option_state (snd (paths_loop normal (times_os os) k rs w)))
         = OptionState_reset os"
  using assms
proof (induction k arbitrary: rs w)
  case 0
  then show ?case by simp
next
  case (Suc k)
  obtain r w' where sp: "single_path normal os p (drawn w) = (r, w')"
    by (cases "single_path normal os p (drawn w)")
  note fr = single_path_frame [OF sp]
  show ?case
  proof (cases r)
    case (Inl e)
    with sp fr show ?thesis
      by (simp add: paths_loop_Suc [OF Suc.prems] del: paths_loop.simps)
  next
    case (Inr v)
    with sp Suc.IH [OF fr(1) fr(2)] show ?thesis
      by (simp add: paths_loop_Suc [OF Suc.prems] del: paths_loop.simps)
  qed
qed

lemma paths_loop_last:
  assumes "Process_reset (the_process w) = Process_reset p"
    and "OptionState_reset (the_option_state w) = OptionState_reset os"
    and "paths_loop normal (times_os os) (Suc k) rs w = (Inr v, w')"
  shows "\<exists>pv. single_path normal os p (drawn w + k * length (times_os os)) = (Inr pv, w')"
  using assms
proof (induction k arbitrary: rs w)
  case 0
  obtain r w1 where sp: "single_path normal os p (drawn w) = (r, w1)"
    by (cases "single_path normal os p (drawn w)")
  with "0.prems"(3) show ?case
    by (cases r) (simp_all add: paths_loop_Suc [OF "0.prems"(1,2)] del: paths_loop.simps, simp)
next
  case (Suc k)
  obtain r w1 where sp: "single_path normal os p (drawn w) = (r, w1)"
    by (cases "single_path normal os p (drawn w)")
  note fr = single_path_frame [OF sp]
  show ?case
  proof (cases r)
    case (Inl e)
    with sp Suc.prems(3) show ?thesis
      by (simp add: paths_loop_Suc [OF Suc.prems(1,2), of normal "Suc k"] del: paths_loop.simps)
  next
    case (Inr pv)
    with sp Suc.prems(3)
    have "paths_loop normal (times_os os) (Suc k) (rs + pv) w1 = (Inr v, w')"
      by (simp add: paths_loop_Suc [OF Suc.prems(1,2), of normal "Suc k"] del: paths_loop.simps)
    from Suc.IH [OF fr(1) fr(2) this] fr(3) [of pv] Inr show ?thesis
      by (simp add: add.assoc)
  qed
qed

lemma expiry_of_reset: "OptionState_reset a = OptionState_reset b \<Longrightarrow> expiry a = expiry b"
proof -
  assume "OptionState_reset a = OptionState_reset b"
  then have "expiry (OptionState_reset a) = expiry (OptionState_reset b)" by simp
  then show ?thesis by (simp add: OptionState_reset_def)
qed

text \<open>
  Claim C2 (the pricer's result). For \<open>n_paths \<ge> 1\<close> and any sequence of samples,
  \<open>mc_path_dependent\<close> returns what the specification describes: every path starts
  from the reset objects, walks the required times in order with one sample per time
  through \<open>process.update\<close> and \<open>optionState.update\<close>, and contributes its payoff; the
  result is the sum of the payoffs over \<open>n_paths\<close>, times the discount factor of the
  expiry (and the first exception of a path, when one raises).
\<close>

theorem mc_path_dependent_result:
  assumes "1 \<le> n_paths"
  shows "fst (mc_path_dependent normal d0 os p yc n_paths)
         = price_spec normal d0 os p yc (nat n_paths)"
proof -
  let ?w0 = "\<lparr>drawn = d0, the_process = p, the_option_state = os\<rparr>"
  obtain r w' where pl: "paths_loop normal (times_os os) (nat n_paths) 0 ?w0 = (r, w')"
    by (cases "paths_loop normal (times_os os) (nat n_paths) 0 ?w0")
  have f: "r = (case collect (map (path_payoff normal d0 os p) [0..<nat n_paths]) of
        Inl e \<Rightarrow> Inl e | Inr vs \<Rightarrow> Inr (0 + sum_list vs))"
    using paths_loop_fst [of ?w0 p os normal "nat n_paths" 0] pl by simp
  have "OptionState_reset (the_option_state w') = OptionState_reset os"
    using paths_loop_frame [of ?w0 p os normal "nat n_paths" 0] pl by simp
  then have e: "expiry (the_option_state w') = expiry os"
    by (rule expiry_of_reset)
  have n: "real (nat n_paths) = real_of_int n_paths" "n_paths \<noteq> 0"
    using assms by simp_all
  show ?thesis
    using pl f e n
    by (simp add: mc_path_dependent_def price_spec_def Let_def split: sum.splits)
qed

theorem mc_path_dependent_result_witness:
  "(1::int) \<le> 2
   \<and> fst (mc_path_dependent (\<lambda>i. 0) 0 (new_OptionState AsianState 100 2 (Call 90) [1, 2])
            (new_BlackScholesProcess 100 0.02 0.2) (FixedRateYieldCurve 0) 2) = Inr 10"
proof -
  have h: "(1::int) \<le> 2" by simp
  have s: "price_spec (\<lambda>i. 0) 0 (new_OptionState AsianState 100 2 (Call 90) [1, 2])
             (new_BlackScholesProcess 100 0.02 0.2) (FixedRateYieldCurve 0) (nat 2) = Inr 10"
    by (simp add: eval_defs eval_nat_numeral)
  from mc_path_dependent_result [OF h, of "\<lambda>i. 0" 0 "new_OptionState AsianState 100 2 (Call 90) [1, 2]"
      "new_BlackScholesProcess 100 0.02 0.2" "FixedRateYieldCurve 0"] s
  have "fst (mc_path_dependent (\<lambda>i. 0) 0 (new_OptionState AsianState 100 2 (Call 90) [1, 2])
            (new_BlackScholesProcess 100 0.02 0.2) (FixedRateYieldCurve 0) 2) = Inr 10"
    by (simp only:)
  with h show ?thesis by blast
qed

text \<open>
  Claim C9, as the code has it. No path count is checked. With \<open>n_paths = 0\<close> no path
  runs and the division of the running sum by \<open>n_paths\<close> raises \<open>ZeroDivisionError\<close>;
  with \<open>n_paths < 0\<close> no path runs either and the call returns 0. In both cases the
  process and the option state are left as they were.
\<close>

theorem mc_path_dependent_nonpositive:
  assumes "n_paths \<le> 0"
  shows "mc_path_dependent normal d0 os p yc n_paths
         = (if n_paths = 0 then Inl ZeroDivisionError else Inr 0,
            \<lparr>drawn = d0, the_process = p, the_option_state = os\<rparr>)"
  using assms by (simp add: mc_path_dependent_def)

theorem mc_path_dependent_nonpositive_witness:
  "(- 3::int) \<le> 0
   \<and> fst (mc_path_dependent (\<lambda>i. 0) 0 (new_OptionState AsianState 100 2 (Call 90) [1, 2])
            (new_BlackScholesProcess 100 0.02 0.2) (FixedRateYieldCurve 0) (- 3)) = Inr 0
   \<and> (0::int) \<le> 0
   \<and> fst (mc_path_dependent (\<lambda>i. 0) 0 (new_OptionState AsianState 100 2 (Call 90) [1, 2])
            (new_BlackScholesProcess 100 0.02 0.2) (FixedRateYieldCurve 0) 0) = Inl ZeroDivisionError"
  using mc_path_dependent_nonpositive [of "- 3" "\<lambda>i. 0" 0 "new_OptionState AsianState 100 2 (Call 90) [1, 2]"
      "new_BlackScholesProcess 100 0.02 0.2" "FixedRateYieldCurve 0"]
    mc_path_dependent_nonpositive [of 0 "\<lambda>i. 0" 0 "new_OptionState AsianState 100 2 (Call 90) [1, 2]"
      "new_BlackScholesProcess 100 0.02 0.2" "FixedRateYieldCurve 0"]
  by simp

text \<open>
  The claim as the specification words it (every non-positive path count makes the
  call fail) does not hold for a negative count: with \<open>n_paths = -1\<close> the call
  returns a value.
\<close>

theorem mc_path_dependent_negative_counterexample:
  "(- 1::int) \<le> 0
   \<and> \<not> isl (fst (mc_path_dependent (\<lambda>i. 0) 0 (new_OptionState AsianState 100 2 (Call 90) [1, 2])
            (new_BlackScholesProcess 100 0.02 0.2) (FixedRateYieldCurve 0) (- 1)))"
  by (simp add: mc_path_dependent_def)

text \<open>
  Claim C10 (residual state of the arguments). After a successful call with
  \<open>n_paths \<ge> 1\<close> the process and the option state are the ones the last path left
  behind: the final objects are those of a single path run from the reset arguments on
  the last block of samples, the option state has expired, and the state time of the
  process is the last required time.
\<close>

theorem mc_path_dependent_residual_state:
  assumes "1 \<le> n_paths"
    and "mc_path_dependent normal d0 os p yc n_paths = (Inr v, w')"
  shows "(\<exists>pv. single_path normal os p (d0 + (nat n_paths - 1) * length (times_os os))
                 = (Inr pv, w'))
       \<and> has_expired (the_option_state w')
       \<and> time_sd (state (the_process w')) = last (times_os os)"
proof -
  let ?w0 = "\<lparr>drawn = d0, the_process = p, the_option_state = os\<rparr>"
  obtain k where k: "nat n_paths = Suc k"
    using assms(1) by (cases "nat n_paths") simp_all
  from assms(2) obtain rs where pl: "paths_loop normal (times_os os) (Suc k) 0 ?w0 = (Inr rs, w')"
    by (auto simp: mc_path_dependent_def Let_def k split: prod.splits sum.splits if_splits)
  from paths_loop_last [of ?w0 p os normal k 0 rs w'] pl
  obtain pv where sp: "single_path normal os p (d0 + k * length (times_os os)) = (Inr pv, w')"
    by auto
  note fr = single_path_frame [OF sp]
  have cp: "calculate_payoff (the_option_state w') = Inr pv"
    using fr(4) by simp
  then have ex: "has_expired (the_option_state w')"
    by (auto simp: calculate_payoff_def split: if_splits)
  have "times_os os \<noteq> []"
  proof
    assume "times_os os = []"
    with sp have "the_option_state w' = OptionState_reset os"
      by (auto simp: single_path_def do_one_path_def)
    with ex show False
      by (simp add: has_expired_def OptionState_reset_def empty_state_data_def)
  qed
  with fr(5) have "time_sd (state (the_process w')) = last (times_os os)" by simp
  with sp ex k show ?thesis by simp
qed

theorem mc_path_dependent_residual_state_witness:
  "(1::int) \<le> 2
   \<and> mc_path_dependent (\<lambda>i. 0) 0 (new_OptionState AsianState 100 2 (Call 90) [1, 2])
        (new_BlackScholesProcess 100 0.02 0.2) (FixedRateYieldCurve 0) 2
      = (Inr 10, \<lparr>drawn = 4,
      the_process = \<lparr>process_class = BlackScholesProcess 0.02 0.2, spot = 100,
                      state = \<lparr>spot_sd = 100, time_sd = 2\<rparr>\<rparr>,
      the_option_state = \<lparr>option_class = AsianState, spot_os = 100, expiry = 2,
         payoff = Call 90, times_os = [1, 2],
         state_data = \<lparr>updates = [1, 2], underlying = [100, 100], state_var = Some 100\<rparr>\<rparr>\<rparr>)
   \<and> has_expired (the_option_state \<lparr>drawn = 4,
      the_process = \<lparr>process_class = BlackScholesProcess 0.02 0.2, spot = 100,
                      state = \<lparr>spot_sd = 100, time_sd = 2\<rparr>\<rparr>,
      the_option_state = \<lparr>option_class = AsianState, spot_os = 100, expiry = 2,
         payoff = Call 90, times_os = [1, 2],
         state_data = \<lparr>updates = [1, 2], underlying = [100, 100], state_var = Some 100\<rparr>\<rparr>\<rparr>)
   \<and> time_sd (state (the_process \<lparr>drawn = 4,
      the_process = \<lparr>process_class = BlackScholesProcess 0.02 0.2, spot = 100,
                      state = \<lparr>spot_sd = 100, time_sd = 2\<rparr>\<rparr>,
      the_option_state = \<lparr>option_class = AsianState, spot_os = 100, expiry = 2,
         payoff = Call 90, times_os = [1, 2],
         state_data = \<lparr>updates = [1, 2], underlying = [100, 100], state_var = Some 100\<rparr>\<rparr>\<rparr>)) = 2"
proof -
  have h: "(1::int) \<le> 2" by simp
  have r: "mc_path_dependent (\<lambda>i. 0) 0 (new_OptionState AsianState 100 2 (Call 90) [1, 2])
        (new_BlackScholesProcess 100 0.02 0.2) (FixedRateYieldCurve 0) 2
      = (Inr 10, \<lparr>drawn = 4,
      the_process = \<lparr>process_class = BlackScholesProcess 0.02 0.2, spot = 100,
                      state = \<lparr>spot_sd = 100, time_sd = 2\<rparr>\<rparr>,
      the_option_state = \<lparr>option_class = AsianState, spot_os = 100, expiry = 2,
         payoff = Call 90, times_os = [1, 2],
         state_data = \<lparr>updates = [1, 2], underlying = [100, 100], state_var = Some 100\<rparr>\<rparr>\<rparr>)"
    by (simp add: eval_defs eval_nat_numeral)
  from mc_path_dependent_residual_state [OF h r]
  have "has_expired (the_option_state \<lparr>drawn = 4,
      the_process = \<lparr>process_class = BlackScholesProcess 0.02 0.2, spot = 100,
                      state = \<lparr>spot_sd = 100, time_sd = 2\<rparr>\<rparr>,
      the_option_state = \<lparr>option_class = AsianState, spot_os = 100, expiry = 2,
         payoff = Call 90, times_os = [1, 2],
         state_data = \<lparr>updates = [1, 2], underlying = [100, 100], state_var = Some 100\<rparr>\<rparr>\<rparr>)"
    by blast
  with h r show ?thesis by simp
qed

end
